theory Spec2Isabelle
  imports Main "HOL-Library.Word"
begin

section \<open>The LRU cache of lrucache.go\<close>

text \<open>
  The cache of \<^verbatim>\<open>lrucache.go\<close> is a hash index from keys to entries plus a doubly
  linked recency list threaded through the entries (head = most recently used).
  The entries are heap objects that the Go code reaches through pointers and mutates
  in place, so the model keeps an explicit store: \<open>heap\<close> holds every entry that was
  ever allocated, a pointer is the position of its entry in the store, and the nil
  pointer is \<open>None\<close>. Go never hands out a dangling pointer; in the model this is the
  part \<open>a < length (heap c)\<close> of the invariant.

  Keys and values are \<^verbatim>\<open>interface{}\<close> in the source. Keys are an arbitrary type with
  HOL equality (the Go map needs comparable keys). A value is \<open>'v option\<close>, where
  \<open>None\<close> is the nil interface value: \<^verbatim>\<open>Get\<close> and \<^verbatim>\<open>Remove\<close> return nil for a key that
  is not present. The int64 fields are 64-bit words read as signed numbers.
  The mutex is not modelled: every operation is one atomic step.
\<close>

subsection \<open>Data\<close>

type_synonym addr = nat

record ('k, 'v) entry =
  nxt :: "addr option"
  prev :: "addr option"
  key :: 'k
  val :: "'v option"
  expireTime :: "64 word"

record ('k, 'v) lrucache =
  capacity :: int
  ttlSeconds :: "64 word"
  stopped :: bool
  head :: "addr option"
  tail :: "addr option"
  hash :: "'k \<rightharpoonup> addr"
  heap :: "('k, 'v) entry list"

datatype error = InvalidCapacity int | InvalidTtlSeconds "64 word"

subsection \<open>Constructors\<close>

definition New :: "int \<Rightarrow> error + ('k, 'v) lrucache" where
  "New cap =
     (if cap \<le> 0 then Inl (InvalidCapacity cap)
      else Inr \<lparr>capacity = cap, ttlSeconds = 0, stopped = False,
                head = None, tail = None, hash = Map.empty, heap = []\<rparr>)"

definition NewWithTTL :: "int \<Rightarrow> 64 word \<Rightarrow> error + ('k, 'v) lrucache" where
  "NewWithTTL cap ttl =
     (if cap \<le> 0 then Inl (InvalidCapacity cap)
      else if ttl <s 0 then Inl (InvalidTtlSeconds ttl)
      else Inr \<lparr>capacity = cap, ttlSeconds = ttl, stopped = False,
                head = None, tail = None, hash = Map.empty, heap = []\<rparr>)"

subsection \<open>The list primitives\<close>

definition set_nxt :: "('k, 'v) lrucache \<Rightarrow> addr \<Rightarrow> addr option \<Rightarrow> ('k, 'v) lrucache" where
  "set_nxt c a p = c\<lparr>heap := (heap c)[a := (heap c ! a)\<lparr>nxt := p\<rparr>]\<rparr>"

definition set_prev :: "('k, 'v) lrucache \<Rightarrow> addr \<Rightarrow> addr option \<Rightarrow> ('k, 'v) lrucache" where
  "set_prev c a p = c\<lparr>heap := (heap c)[a := (heap c ! a)\<lparr>prev := p\<rparr>]\<rparr>"

definition set_val :: "('k, 'v) lrucache \<Rightarrow> addr \<Rightarrow> 'v option \<Rightarrow> ('k, 'v) lrucache" where
  "set_val c a v = c\<lparr>heap := (heap c)[a := (heap c ! a)\<lparr>val := v\<rparr>]\<rparr>"

definition set_expireTime :: "('k, 'v) lrucache \<Rightarrow> addr \<Rightarrow> 64 word \<Rightarrow> ('k, 'v) lrucache" where
  "set_expireTime c a t = c\<lparr>heap := (heap c)[a := (heap c ! a)\<lparr>expireTime := t\<rparr>]\<rparr>"

text \<open>
  \<^verbatim>\<open>unlink\<close> reads \<^verbatim>\<open>e.next\<close> and \<^verbatim>\<open>e.prev\<close> again after each write, as the source
  does, so the four statements are four state transformers in sequence.
\<close>

definition unlink :: "('k, 'v) lrucache \<Rightarrow> addr \<Rightarrow> ('k, 'v) lrucache" where
  "unlink c e =
     (let c1 = (case prev (heap c ! e) of
                  None \<Rightarrow> c\<lparr>head := nxt (heap c ! e)\<rparr>
                | Some p \<Rightarrow> set_nxt c p (nxt (heap c ! e)));
          c2 = (case nxt (heap c1 ! e) of
                  None \<Rightarrow> c1\<lparr>tail := prev (heap c1 ! e)\<rparr>
                | Some n \<Rightarrow> set_prev c1 n (prev (heap c1 ! e)));
          c3 = set_prev c2 e None
      in set_nxt c3 e None)"

definition prepend :: "('k, 'v) lrucache \<Rightarrow> addr \<Rightarrow> ('k, 'v) lrucache" where
  "prepend c e =
     (let c1 = set_nxt c e (head c);
          c2 = (case head c1 of None \<Rightarrow> c1 | Some h \<Rightarrow> set_prev c1 h (Some e));
          c3 = c2\<lparr>head := Some e\<rparr>
      in (if tail c3 = None then c3\<lparr>tail := Some e\<rparr> else c3))"

text \<open>The step shared by \<^verbatim>\<open>Get\<close> and \<^verbatim>\<open>Put\<close>: move the entry to the head unless it is the head.\<close>

definition promote :: "('k, 'v) lrucache \<Rightarrow> addr \<Rightarrow> ('k, 'v) lrucache" where
  "promote c e = (if Some e \<noteq> head c then prepend (unlink c e) e else c)"

subsection \<open>The public operations\<close>

definition Get :: "('k, 'v) lrucache \<Rightarrow> 'k \<Rightarrow> 'v option \<times> ('k, 'v) lrucache" where
  "Get c k =
     (case hash c k of
        None \<Rightarrow> (None, c)
      | Some e \<Rightarrow> (let c' = promote c e in (val (heap c' ! e), c')))"

text \<open>
  \<^verbatim>\<open>new_entry\<close> is \<^verbatim>\<open>&entry{key: key, value: value}\<close>: a fresh object at the end of
  the store, the other fields zero.
\<close>

definition new_entry :: "('k, 'v) lrucache \<Rightarrow> 'k \<Rightarrow> 'v option \<Rightarrow> addr \<times> ('k, 'v) lrucache" where
  "new_entry c k v =
     (length (heap c),
      c\<lparr>heap := heap c @ [\<lparr>nxt = None, prev = None, key = k, val = v, expireTime = 0\<rparr>]\<rparr>)"

definition len_hash :: "('k, 'v) lrucache \<Rightarrow> int" where
  "len_hash c = int (card (dom (hash c)))"

text \<open>
  \<^verbatim>\<open>Put\<close> takes the result of \<^verbatim>\<open>time.Now().Unix()\<close> as the argument \<open>now\<close>; the
  sum \<open>now + ttlSeconds\<close> wraps as int64 addition does. In the eviction branch
  \<^verbatim>\<open>c.tail\<close> cannot be nil, because \<^verbatim>\<open>prepend\<close> has just run (lemma \<open>tail_prepend\<close>).
\<close>

definition Put :: "('k, 'v) lrucache \<Rightarrow> 64 word \<Rightarrow> 'k \<Rightarrow> 'v option \<Rightarrow> ('k, 'v) lrucache" where
  "Put c now k v =
     (case hash c k of
        Some e \<Rightarrow>
          (let c1 = set_val c e v;
               c2 = (if 0 <s ttlSeconds c1 then set_expireTime c1 e (now + ttlSeconds c1) else c1)
           in promote c2 e)
      | None \<Rightarrow>
          (let (e, c1) = new_entry c k v;
               c2 = (if 0 <s ttlSeconds c1 then set_expireTime c1 e (now + ttlSeconds c1) else c1);
               c3 = prepend c2 e;
               c4 = c3\<lparr>hash := (hash c3)(k \<mapsto> e)\<rparr>
           in (if len_hash c4 > capacity c4
               then (case tail c4 of
                       None \<Rightarrow> c4
                     | Some lst \<Rightarrow>
                         (let c5 = unlink c4 lst
                          in c5\<lparr>hash := (hash c5)(key (heap c5 ! lst) := None)\<rparr>))
               else c4)))"

definition Remove :: "('k, 'v) lrucache \<Rightarrow> 'k \<Rightarrow> 'v option \<times> ('k, 'v) lrucache" where
  "Remove c k =
     (case hash c k of
        None \<Rightarrow> (None, c)
      | Some e \<Rightarrow>
          (let c1 = unlink c e;
               c2 = c1\<lparr>hash := (hash c1)(k := None)\<rparr>
           in (val (heap c2 ! e), c2)))"

definition Size :: "('k, 'v) lrucache \<Rightarrow> int" where
  "Size c = len_hash c"

definition Capacity :: "('k, 'v) lrucache \<Rightarrow> int" where
  "Capacity c = capacity c"

definition TTLSeconds :: "('k, 'v) lrucache \<Rightarrow> 64 word" where
  "TTLSeconds c = ttlSeconds c"

definition Clear :: "('k, 'v) lrucache \<Rightarrow> ('k, 'v) lrucache" where
  "Clear c = c\<lparr>head := None, tail := None, hash := Map.empty\<rparr>"

definition Stop :: "('k, 'v) lrucache \<Rightarrow> ('k, 'v) lrucache" where
  "Stop c = c\<lparr>stopped := True\<rparr>"

subsection \<open>The sweeper\<close>

text \<open>
  The loop \<^verbatim>\<open>for e := c.head; e != nil; { next := e.next; ...; e = next }\<close> of
  \<^verbatim>\<open>pruneExpiredEntries\<close>. It follows pointers, so nothing in its text bounds it:
  it is a partial function, and \<open>None\<close> stands for a run that does not return.
\<close>

partial_function (option) sweep ::
  "('k, 'v) lrucache \<Rightarrow> addr option \<Rightarrow> 64 word \<Rightarrow> ('k, 'v) lrucache option" where
  "sweep c e now =
     (case e of
        None \<Rightarrow> Some c
      | Some a \<Rightarrow>
          (let next_e = nxt (heap c ! a);
               c' = (if expireTime (heap c ! a) \<le>s now
                     then (let c1 = unlink c a
                           in c1\<lparr>hash := (hash c1)(key (heap c1 ! a) := None)\<rparr>)
                     else c)
           in sweep c' next_e now))"

text \<open>
  One run of the closure inside the loop (lines 79 to 96), with \<open>now\<close> read before the
  lock is taken. The first component is the sweeper's local variable \<^verbatim>\<open>stopped\<close>
  after the run.
\<close>

definition tick :: "('k, 'v) lrucache \<Rightarrow> 64 word \<Rightarrow> (bool \<times> ('k, 'v) lrucache) option" where
  "tick c now =
     (if stopped c then Some (True, c)
      else map_option (\<lambda>c'. (False, c')) (sweep c (head c) now))"

text \<open>
  The goroutine \<^verbatim>\<open>pruneExpiredEntries\<close> as a machine: \<open>Looping b\<close> is the top of the
  \<^verbatim>\<open>for\<close> loop with the local \<^verbatim>\<open>stopped = b\<close>, \<open>Returned\<close> is the goroutine after its
  \<^verbatim>\<open>return\<close>. \<open>prune_start\<close> is the test before the loop, \<open>prune_iter\<close> one iteration.
\<close>

datatype sweeper = Looping bool | Returned

definition prune_start :: "('k, 'v) lrucache \<Rightarrow> sweeper" where
  "prune_start c = (if ttlSeconds c = 0 \<or> stopped c then Returned else Looping False)"

fun prune_iter ::
  "sweeper \<Rightarrow> ('k, 'v) lrucache \<Rightarrow> 64 word \<Rightarrow> (sweeper \<times> ('k, 'v) lrucache) option" where
  "prune_iter Returned c now = Some (Returned, c)"
| "prune_iter (Looping b) c now =
     (if b then Some (Returned, c)
      else map_option (\<lambda>(b', c'). (Looping b', c')) (tick c now))"

subsection \<open>Example caches\<close>

text \<open>
  A concrete cache for the examples: capacity 2, ttlSeconds 1, built at time 0 by
  \<^verbatim>\<open>NewWithTTL(2, 1)\<close>, \<^verbatim>\<open>Put(1, 10)\<close>, \<^verbatim>\<open>Put(2, 20)\<close> with natural numbers as keys
  and values.
\<close>

definition empty_cache :: "int \<Rightarrow> 64 word \<Rightarrow> ('k, 'v) lrucache" where
  "empty_cache cap ttl =
     \<lparr>capacity = cap, ttlSeconds = ttl, stopped = False,
      head = None, tail = None, hash = Map.empty, heap = []\<rparr>"

definition cache12 :: "(nat, nat) lrucache" where
  "cache12 = Put (Put (empty_cache 2 1) 0 1 (Some 10)) 0 2 (Some 20)"

section \<open>Absent keys\<close>

lemma New_empty_cache: "0 < cap \<Longrightarrow> New cap = Inr (empty_cache cap 0)"
  by (simp add: New_def empty_cache_def)

lemma NewWithTTL_empty_cache:
  "0 < cap \<Longrightarrow> \<not> ttl <s 0 \<Longrightarrow> NewWithTTL cap ttl = Inr (empty_cache cap ttl)"
  by (simp add: NewWithTTL_def empty_cache_def)

text \<open>
  C8. For every cache and every key that is not in the index, \<^verbatim>\<open>Get\<close> and \<^verbatim>\<open>Remove\<close>
  return the absent result (nil, a value and not an error) and leave the whole cache
  state unchanged, in particular \<^verbatim>\<open>Size()\<close>.
\<close>

theorem absent_key_unchanged:
  assumes "hash c k = None"
  shows "Get c k = (None, c) \<and> Remove c k = (None, c) \<and>
         Size (snd (Get c k)) = Size c \<and> Size (snd (Remove c k)) = Size c"
  using assms by (simp add: Get_def Remove_def)

theorem absent_key_unchanged_witness:
  "hash cache12 3 = None \<and> Get cache12 3 = (None, cache12) \<and>
   Remove cache12 3 = (None, cache12) \<and>
   Size (snd (Get cache12 3)) = Size cache12 \<and> Size (snd (Remove cache12 3)) = Size cache12"
proof -
  have h: "hash cache12 3 = None"
    by (simp add: cache12_def empty_cache_def Put_def new_entry_def prepend_def set_nxt_def
        set_prev_def set_expireTime_def len_hash_def Let_def unlink_def)
  show ?thesis using h absent_key_unchanged [OF h] by simp
qed

section \<open>Construction\<close>

text \<open>
  C9. \<^verbatim>\<open>New(capacity)\<close> fails exactly when \<open>capacity \<le> 0\<close>, and
  \<^verbatim>\<open>NewWithTTL(capacity, ttlSeconds)\<close> fails exactly when \<open>capacity \<le> 0\<close> or
  \<open>ttlSeconds < 0\<close> (as a signed 64-bit number). For valid arguments each constructor
  returns a cache with the given capacity and TTL configuration, the stopped flag
  unset, and an empty index and list.
\<close>

theorem constructors:
  "(isl (New cap :: error + ('k, 'v) lrucache) \<longleftrightarrow> cap \<le> 0) \<and>
   (isl (NewWithTTL cap ttl :: error + ('k, 'v) lrucache) \<longleftrightarrow> cap \<le> 0 \<or> ttl <s 0) \<and>
   (0 < cap \<longrightarrow>
      (\<exists>c :: ('k, 'v) lrucache. New cap = Inr c \<and> capacity c = cap \<and> ttlSeconds c = 0 \<and>
         \<not> stopped c \<and> hash c = Map.empty \<and> head c = None \<and> tail c = None \<and> Size c = 0)) \<and>
   (0 < cap \<and> \<not> ttl <s 0 \<longrightarrow>
      (\<exists>c :: ('k, 'v) lrucache. NewWithTTL cap ttl = Inr c \<and> capacity c = cap \<and>
         ttlSeconds c = ttl \<and> \<not> stopped c \<and> hash c = Map.empty \<and> head c = None \<and>
         tail c = None \<and> Size c = 0))"
  by (simp add: New_def NewWithTTL_def Size_def len_hash_def)

theorem constructors_witness:
  "(isl (New 2 :: error + (nat, nat) lrucache) \<longleftrightarrow> (2::int) \<le> 0) \<and>
   (isl (New 0 :: error + (nat, nat) lrucache) \<longleftrightarrow> (0::int) \<le> 0) \<and>
   isl (NewWithTTL 2 (- 1) :: error + (nat, nat) lrucache) \<and>
   0 < (2::int) \<and> \<not> (1 :: 64 word) <s 0 \<and>
   (\<exists>c :: (nat, nat) lrucache. NewWithTTL 2 1 = Inr c \<and> capacity c = 2 \<and>
      ttlSeconds c = 1 \<and> \<not> stopped c \<and> hash c = Map.empty \<and> head c = None \<and>
      tail c = None \<and> Size c = 0)"
  using constructors [of 2 1, where ?'k = nat and ?'v = nat]
    constructors [of 0 1, where ?'k = nat and ?'v = nat]
    constructors [of 2 "- 1", where ?'k = nat and ?'v = nat]
  by (simp add: word_sless_alt)

end
